theory Spec2Isabelle
  imports Complex_Main
begin

section \<open>Values exchanged with the server\<close>

text \<open>
  A JavaScript value as \<^verbatim>\<open>JSON.parse\<close> builds it, together with \<^verbatim>\<open>undefined\<close>, which is
  what reading an absent property gives. Objects are association lists from property
  names to values.
\<close>

datatype jsval =
    JUndefined
  | JNull
  | JBool bool
  | JNum real
  | JStr string
  | JArr "jsval list"
  | JObj "(string \<times> jsval) list"

text \<open>
  The interfaces of \<^verbatim>\<open>types/city.ts\<close>, which type the snapshots the replay page keeps.
  Fields typed \<^verbatim>\<open>any\<close> stay raw values.
\<close>

record city_node =
  intersection_id :: string
  name :: string
  lat :: real
  lng :: real
  neighbors :: "string list"
  current_phase :: jsval
  overall_metrics :: jsval
  direction_metrics :: jsval
  explainability :: "jsval option"

text \<open>
  The code that reads a snapshot allows these fields to be missing
  (\<^verbatim>\<open>cityUpdate?.city?.nodes ?? []\<close>, \<^verbatim>\<open>cu.incidents ?? []\<close>,
  \<^verbatim>\<open>current?.event_log_tail || []\<close>), so they are optional here.
\<close>

record city_state =
  city_id :: string
  center :: "real \<times> real"
  nodes :: "city_node list option"

record incident =
  incident_id :: string
  incident_intersection_id :: string
  incident_direction :: string
  incident_type :: string
  severity :: real
  incident_created_at :: string
  incident_status :: string

record ambulance_route =
  route_id :: string
  from_intersection :: string
  to_intersection :: string
  route_created_at :: string
  eta_seconds :: real
  route_status :: string

record city_event =
  event_type :: string
  event_timestamp :: string
  event_data :: jsval

record city_update_message =
  timestamp :: string
  city :: "city_state option"
  cu_incidents :: "incident list option"
  cu_ambulance_routes :: "ambulance_route list option"
  event_log_tail :: "city_event list option"

section \<open>Reading properties\<close>

datatype js_error = TypeError

text \<open>
  \<^verbatim>\<open>v.k\<close> for a value other than \<^verbatim>\<open>null\<close> and \<^verbatim>\<open>undefined\<close>, and for the property names
  this code reads (none of them is a built-in property of strings, numbers, booleans or
  arrays): the entry of an object, \<^verbatim>\<open>undefined\<close> otherwise. A parsed object has each
  name once.
\<close>

definition own_prop :: "jsval \<Rightarrow> string \<Rightarrow> jsval" where
  "own_prop v k =
     (case v of
        JObj kvs \<Rightarrow> (case map_of kvs k of None \<Rightarrow> JUndefined | Some x \<Rightarrow> x)
      | _ \<Rightarrow> JUndefined)"

text \<open>\<^verbatim>\<open>v.k\<close> for any value: reading a property of \<^verbatim>\<open>null\<close> or \<^verbatim>\<open>undefined\<close> throws.\<close>

definition get_prop :: "jsval \<Rightarrow> string \<Rightarrow> js_error + jsval" where
  "get_prop v k = (if v = JNull \<or> v = JUndefined then Inl TypeError else Inr (own_prop v k))"

text \<open>The values that count as true in a condition.\<close>

definition truthy :: "jsval \<Rightarrow> bool" where
  "truthy v =
     (case v of
        JUndefined \<Rightarrow> False
      | JNull \<Rightarrow> False
      | JBool b \<Rightarrow> b
      | JNum n \<Rightarrow> n \<noteq> 0
      | JStr s \<Rightarrow> s \<noteq> []
      | _ \<Rightarrow> True)"

text \<open>\<^verbatim>\<open>null\<close> and \<^verbatim>\<open>undefined\<close>, then \<^verbatim>\<open>v ?? d\<close> and \<^verbatim>\<open>v?.k\<close>.\<close>

definition nullish :: "jsval \<Rightarrow> bool" where
  "nullish v \<longleftrightarrow> v = JNull \<or> v = JUndefined"

definition nullish_or :: "jsval \<Rightarrow> jsval \<Rightarrow> jsval" where
  "nullish_or v d = (if nullish v then d else v)"

definition opt_prop :: "jsval \<Rightarrow> string \<Rightarrow> jsval" where
  "opt_prop v k = (if nullish v then JUndefined else own_prop v k)"

text \<open>
  \<^verbatim>\<open>a === b\<close> for a value \<open>a\<close> held from an earlier frame and a value \<open>b\<close> of the frame
  being handled: primitive values are equal when they are the same value; an array or an
  object built by one call of \<^verbatim>\<open>JSON.parse\<close> is never the same object as one built by
  another call.
\<close>

fun strict_eq :: "jsval \<Rightarrow> jsval \<Rightarrow> bool" where
  "strict_eq JUndefined JUndefined = True"
| "strict_eq JNull JNull = True"
| "strict_eq (JBool a) (JBool b) = (a = b)"
| "strict_eq (JNum a) (JNum b) = (a = b)"
| "strict_eq (JStr a) (JStr b) = (a = b)"
| "strict_eq a b = False"

text \<open>What the code takes from its surroundings: \<^verbatim>\<open>JSON.stringify\<close>.\<close>

record runtime =
  JSON_stringify :: "jsval \<Rightarrow> string"

section \<open>The hook \<^verbatim>\<open>useCityWebSocket\<close>\<close>

datatype ready_state = CONNECTING | OPEN | CLOSING | CLOSED

datatype connection_status = StConnecting | StConnected | StDisconnected | StError

text \<open>The three texts \<^verbatim>\<open>setLastError\<close> is given, with the values spliced into them.\<close>

datatype last_error =
    ReconnectFailed int string
  | WebSocketError string
  | ConstructorError string

text \<open>Calls the hook makes on the browser, in the order it makes them.\<close>

datatype browser_call =
    NewWebSocket string
  | WsSend nat string
  | WsClose nat
  | SetTimeout int

text \<open>
  The options of the hook. \<open>ws_ctor_error\<close> is the message of the exception that
  \<^verbatim>\<open>new WebSocket(url)\<close> throws for this URL, if it throws.
\<close>

record config =
  url :: string
  reconnectIntervalMs :: int
  reconnectMaxAttempts :: int
  ws_ctor_error :: "string option"

text \<open>
  The refs and state cells of the hook. \<open>sockets\<close> holds the \<^verbatim>\<open>readyState\<close> of every
  socket the hook has created (socket \<open>i\<close> is the \<open>i\<close>-th created); \<open>reconnectTimer\<close> is
  the delay of the pending timeout, if one is pending (a handle left in the ref after its
  timeout has fired is dead, and counts as none); \<open>calls\<close> records the browser calls.
  The four cells of the store hold what the frames carried: the casts of the handler
  (\<^verbatim>\<open>msg as CityUpdateMessage\<close> and the like) check nothing when the code runs, so a cell
  holds a value of its declared type only as far as the server sent one.
\<close>

record hook_state =
  sockets :: "ready_state list"
  wsRef :: "nat option"
  reconnectAttempt :: int
  reconnectTimer :: "int option"
  status :: connection_status
  lastError :: "last_error option"
  cityUpdate :: jsval
  incidents :: jsval
  routes :: jsval
  events :: jsval
  calls :: "browser_call list"

definition initial_hook_state :: hook_state where
  "initial_hook_state =
     \<lparr>sockets = [], wsRef = None, reconnectAttempt = 0, reconnectTimer = None,
      status = StConnecting, lastError = None, cityUpdate = JNull, incidents = JArr [],
      routes = JArr [], events = JArr [], calls = []\<rparr>"

subsection \<open>The store\<close>

text \<open>\<^verbatim>\<open>const nodes = cityUpdate?.city?.nodes ?? []\<close>\<close>

definition nodes_of :: "hook_state \<Rightarrow> jsval" where
  "nodes_of st = nullish_or (opt_prop (opt_prop (cityUpdate st) ''city'') ''nodes'') (JArr [])"

text \<open>
  The \<^verbatim>\<open>city_update\<close> branch: four state cells are set from the message \<open>cu\<close>, which is
  not \<^verbatim>\<open>null\<close> there.
\<close>

definition apply_city_update :: "jsval \<Rightarrow> hook_state \<Rightarrow> hook_state" where
  "apply_city_update cu st =
     st\<lparr>cityUpdate := cu,
        incidents := nullish_or (own_prop cu ''incidents'') (JArr []),
        routes := nullish_or (own_prop cu ''ambulance_routes'') (JArr []),
        events := nullish_or (own_prop cu ''event_log_tail'') (JArr [])\<rparr>"

text \<open>
  \<^verbatim>\<open>prev.filter((r) => r.k !== x.k)\<close> on the elements of \<^verbatim>\<open>prev\<close>, for \<open>k\<close> one of
  \<^verbatim>\<open>route_id\<close> and \<^verbatim>\<open>incident_id\<close>. The test reads \<^verbatim>\<open>r.k\<close>, then \<^verbatim>\<open>x.k\<close>, for each
  element in turn; either read throws on \<^verbatim>\<open>null\<close> and \<^verbatim>\<open>undefined\<close>.
\<close>

fun filter_others :: "string \<Rightarrow> jsval \<Rightarrow> jsval list \<Rightarrow> js_error + jsval list" where
  "filter_others k x [] = Inr []"
| "filter_others k x (r # rs) =
     (case get_prop r k of
        Inl e \<Rightarrow> Inl e
      | Inr a \<Rightarrow>
          (case get_prop x k of
             Inl e \<Rightarrow> Inl e
           | Inr b \<Rightarrow>
               (case filter_others k x rs of
                  Inl e \<Rightarrow> Inl e
                | Inr kept \<Rightarrow> Inr (if strict_eq a b then kept else r # kept))))"

text \<open>
  The updater of the \<^verbatim>\<open>ambulance_route_update\<close> and \<^verbatim>\<open>incident_update\<close> branches:
  \<^verbatim>\<open>[x, ...filtered]\<close>. Only an array has \<^verbatim>\<open>filter\<close>; calling it on another value throws.
\<close>

definition upsert :: "string \<Rightarrow> jsval \<Rightarrow> jsval \<Rightarrow> js_error + jsval" where
  "upsert k x prev =
     (case prev of
        JArr rs \<Rightarrow>
          (case filter_others k x rs of
             Inl e \<Rightarrow> Inl e
           | Inr filtered \<Rightarrow> Inr (JArr (x # filtered)))
      | _ \<Rightarrow> Inl TypeError)"

subsection \<open>Receiving a frame\<close>

text \<open>
  \<^verbatim>\<open>ws.onmessage\<close>. Its argument is the outcome of \<^verbatim>\<open>JSON.parse(evt.data)\<close>: \<open>None\<close> when
  the frame is not JSON and the parser throws, which the handler catches. Then come the
  tests \<^verbatim>\<open>msg.type === "..."\<close> in their order; the first of them reads \<^verbatim>\<open>msg.type\<close>,
  which throws when \<^verbatim>\<open>msg\<close> is \<^verbatim>\<open>null\<close>. \<open>Inl\<close> is an exception, thrown in the handler
  or in the updater it hands to \<^verbatim>\<open>setRoutes\<close> or \<^verbatim>\<open>setIncidents\<close>.
\<close>

definition onmessage :: "jsval option \<Rightarrow> hook_state \<Rightarrow> js_error + hook_state" where
  "onmessage parsed st =
     (case parsed of
        None \<Rightarrow> Inr st
      | Some msg \<Rightarrow>
          (case get_prop msg ''type'' of
             Inl e \<Rightarrow> Inl e
           | Inr t \<Rightarrow>
               if t = JStr ''city_update'' then Inr (apply_city_update msg st)
               else if t = JStr ''ambulance_route_update'' then
                 (case upsert ''route_id'' (own_prop msg ''route'') (routes st) of
                    Inl e \<Rightarrow> Inl e
                  | Inr v \<Rightarrow> Inr (st\<lparr>routes := v\<rparr>))
               else if t = JStr ''incident_update'' then
                 (case upsert ''incident_id'' (own_prop msg ''incident'') (incidents st) of
                    Inl e \<Rightarrow> Inl e
                  | Inr v \<Rightarrow> Inr (st\<lparr>incidents := v\<rparr>))
               else Inr st))"

subsection \<open>The connection\<close>

definition ready_of :: "ready_state list \<Rightarrow> nat \<Rightarrow> ready_state option" where
  "ready_of socks i = (if i < length socks then Some (socks ! i) else None)"

text \<open>\<^verbatim>\<open>ws.close()\<close>: an open or connecting socket starts closing; its close event comes later.\<close>

definition ws_close :: "nat \<Rightarrow> ready_state list \<Rightarrow> ready_state list" where
  "ws_close i socks =
     (if ready_of socks i = Some OPEN \<or> ready_of socks i = Some CONNECTING
      then socks[i := CLOSING] else socks)"

definition clearReconnectTimer :: "hook_state \<Rightarrow> hook_state" where
  "clearReconnectTimer st = st\<lparr>reconnectTimer := None\<rparr>"

definition closeSocket :: "hook_state \<Rightarrow> hook_state" where
  "closeSocket st =
     (let st1 = clearReconnectTimer st;
          ws = wsRef st1;
          st2 = st1\<lparr>wsRef := None\<rparr>
      in case ws of
           None \<Rightarrow> st2
         | Some i \<Rightarrow>
             if ready_of (sockets st2) i = Some OPEN \<or> ready_of (sockets st2) i = Some CONNECTING
             then st2\<lparr>sockets := ws_close i (sockets st2), calls := calls st2 @ [WsClose i]\<rparr>
             else st2)"

text \<open>\<^verbatim>\<open>sendMessage\<close>: the result is what it returns.\<close>

definition sendMessage :: "runtime \<Rightarrow> jsval \<Rightarrow> hook_state \<Rightarrow> bool \<times> hook_state" where
  "sendMessage rt msg st =
     (case wsRef st of
        None \<Rightarrow> (False, st)
      | Some i \<Rightarrow>
          if ready_of (sockets st) i \<noteq> Some OPEN then (False, st)
          else (True, st\<lparr>calls := calls st @ [WsSend i (JSON_stringify rt msg)]\<rparr>))"

definition scheduleReconnect :: "config \<Rightarrow> hook_state \<Rightarrow> hook_state" where
  "scheduleReconnect cfg st =
     (let st1 = clearReconnectTimer st
      in if reconnectAttempt st1 \<ge> reconnectMaxAttempts cfg
         then st1\<lparr>status := StError,
                  lastError := Some (ReconnectFailed (reconnectMaxAttempts cfg) (url cfg))\<rparr>
         else
           let attempt = reconnectAttempt st1 + 1;
               delay = reconnectIntervalMs cfg * attempt
           in st1\<lparr>reconnectAttempt := attempt,
                  status := StConnecting,
                  reconnectTimer := Some delay,
                  calls := calls st1 @ [SetTimeout delay]\<rparr>)"

definition connect :: "config \<Rightarrow> hook_state \<Rightarrow> hook_state" where
  "connect cfg st =
     (let st1 = closeSocket st;
          st2 = st1\<lparr>status := StConnecting, lastError := None\<rparr>
      in case ws_ctor_error cfg of
           None \<Rightarrow>
             st2\<lparr>sockets := sockets st2 @ [CONNECTING],
                 wsRef := Some (length (sockets st2)),
                 calls := calls st2 @ [NewWebSocket (url cfg)]\<rparr>
         | Some m \<Rightarrow>
             scheduleReconnect cfg (st2\<lparr>status := StError, lastError := Some (ConstructorError m)\<rparr>))"

definition onopen :: "hook_state \<Rightarrow> hook_state" where
  "onopen st = st\<lparr>reconnectAttempt := 0, status := StConnected\<rparr>"

definition onerror :: "config \<Rightarrow> hook_state \<Rightarrow> hook_state" where
  "onerror cfg st = st\<lparr>status := StError, lastError := Some (WebSocketError (url cfg))\<rparr>"

definition onclose :: "config \<Rightarrow> hook_state \<Rightarrow> hook_state" where
  "onclose cfg st = scheduleReconnect cfg (st\<lparr>status := StDisconnected\<rparr>)"

subsection \<open>What happens without a call from the component\<close>

text \<open>
  The events the browser delivers to the hook: those of socket \<open>i\<close> (every socket the hook
  creates gets the four handlers) and the firing of the reconnect timeout. An event that
  cannot occur in the current state (an open event for a socket that is not connecting, a
  message on a socket that is not open, an event of a closed socket, a timeout that is not
  pending) changes nothing. When the message handler or its updater throws, the model
  leaves the state as it was; what React does with a component whose updater threw is not
  modelled.
\<close>

datatype hook_event =
    SocketOpened nat
  | SocketMessage nat "jsval option"
  | SocketErrored nat
  | SocketClosed nat
  | ReconnectTimerFired

definition step :: "config \<Rightarrow> hook_event \<Rightarrow> hook_state \<Rightarrow> hook_state" where
  "step cfg e st =
     (case e of
        SocketOpened i \<Rightarrow>
          if ready_of (sockets st) i = Some CONNECTING
          then onopen (st\<lparr>sockets := (sockets st)[i := OPEN]\<rparr>) else st
      | SocketMessage i parsed \<Rightarrow>
          if ready_of (sockets st) i = Some OPEN
          then (case onmessage parsed st of Inl err \<Rightarrow> st | Inr st' \<Rightarrow> st') else st
      | SocketErrored i \<Rightarrow>
          if ready_of (sockets st) i \<noteq> None \<and> ready_of (sockets st) i \<noteq> Some CLOSED
          then onerror cfg st else st
      | SocketClosed i \<Rightarrow>
          if ready_of (sockets st) i \<noteq> None \<and> ready_of (sockets st) i \<noteq> Some CLOSED
          then onclose cfg (st\<lparr>sockets := (sockets st)[i := CLOSED]\<rparr>) else st
      | ReconnectTimerFired \<Rightarrow>
          (case reconnectTimer st of
             None \<Rightarrow> st
           | Some d \<Rightarrow> connect cfg (st\<lparr>reconnectTimer := None\<rparr>)))"

fun run :: "config \<Rightarrow> hook_event list \<Rightarrow> hook_state \<Rightarrow> hook_state" where
  "run cfg [] st = st"
| "run cfg (e # es) st = run cfg es (step cfg e st)"

fun is_open_event :: "hook_event \<Rightarrow> bool" where
  "is_open_event (SocketOpened i) = True"
| "is_open_event e = False"

text \<open>The delays of the timeouts among some browser calls, in the order they were set.\<close>

fun scheduled_delays :: "browser_call list \<Rightarrow> int list" where
  "scheduled_delays [] = []"
| "scheduled_delays (SetTimeout d # cs) = d # scheduled_delays cs"
| "scheduled_delays (c # cs) = scheduled_delays cs"

text \<open>The options the hook uses when it is given none.\<close>

definition default_config :: config where
  "default_config =
     \<lparr>url = ''ws://localhost:8001/ws/city'', reconnectIntervalMs = 1000,
      reconnectMaxAttempts = 10, ws_ctor_error = None\<rparr>"

section \<open>The class \<^verbatim>\<open>WebSocketService\<close>\<close>

definition maxReconnectAttempts :: int where
  "maxReconnectAttempts = 5"

definition reconnectInterval :: int where
  "reconnectInterval = 5000"

text \<open>
  The fields of the service. \<open>svc_sockets\<close> holds the \<^verbatim>\<open>readyState\<close> of every socket it
  has created; \<open>pingInterval\<close> tells whether the field holds a handle, \<open>intervals\<close> counts
  the intervals running in the browser; \<open>reconnectTimeouts\<close> counts the pending timeouts
  of \<^verbatim>\<open>attemptReconnect\<close>, whose handles are not kept; \<open>emitted\<close> and \<open>notified\<close> record
  the calls of \<^verbatim>\<open>emit\<close> and \<^verbatim>\<open>notifyConnectionStatus\<close>, and \<open>svc_calls\<close> the browser calls.
\<close>

record service_state =
  wsUrl :: string
  ws :: "nat option"
  svc_sockets :: "ready_state list"
  reconnectAttempts :: int
  pingInterval :: bool
  intervals :: nat
  isConnected :: bool
  reconnectTimeouts :: nat
  emitted :: "(string \<times> jsval) list"
  notified :: "bool list"
  svc_calls :: "browser_call list"

definition initial_service_state :: service_state where
  "initial_service_state =
     \<lparr>wsUrl = ''ws://localhost:8001/ws/city'', ws = None, svc_sockets = [],
      reconnectAttempts = 0, pingInterval = False, intervals = 0, isConnected = False,
      reconnectTimeouts = 0, emitted = [], notified = [], svc_calls = []\<rparr>"

definition emit :: "string \<Rightarrow> jsval \<Rightarrow> service_state \<Rightarrow> service_state" where
  "emit event data st = st\<lparr>emitted := emitted st @ [(event, data)]\<rparr>"

definition notifyConnectionStatus :: "bool \<Rightarrow> service_state \<Rightarrow> service_state" where
  "notifyConnectionStatus c st = st\<lparr>notified := notified st @ [c]\<rparr>"

text \<open>\<^verbatim>\<open>handleMessage\<close>: the guard, then the \<^verbatim>\<open>switch\<close>. \<open>Inl\<close> is an exception.\<close>

definition handleMessage :: "jsval \<Rightarrow> service_state \<Rightarrow> js_error + service_state" where
  "handleMessage message st =
     (if \<not> truthy message then Inr st
      else
        case get_prop message ''type'' of
          Inl e \<Rightarrow> Inl e
        | Inr t \<Rightarrow>
            (case t of
               JStr ty \<Rightarrow>
                 if ty = ''simulation_update''
                   then (if truthy (own_prop message ''data'')
                         then Inr (emit ''simulationUpdate'' (own_prop message ''data'') st)
                         else Inr st)
                 else if ty = ''city_update'' then Inr (emit ''cityUpdate'' message st)
                 else if ty = ''incident_update'' then Inr (emit ''incidentUpdate'' message st)
                 else if ty = ''ambulance_route_update''
                   then Inr (emit ''ambulanceRouteUpdate'' message st)
                 else if ty = ''connection_status''
                   then Inr (emit ''connectionStatus''
                               (JObj [(''status'', own_prop message ''message''),
                                      (''timestamp'', own_prop message ''timestamp'')]) st)
                 else if ty = ''pong'' then Inr (emit ''pong'' message st)
                 else if ty = ''error''
                   then Inr (emit ''error''
                               (JObj [(''error'', own_prop message ''message''),
                                      (''timestamp'', own_prop message ''timestamp'')]) st)
                 else Inr st
             | _ \<Rightarrow> Inr st))"

text \<open>
  \<^verbatim>\<open>ws.onmessage\<close> of the service: parsing and handling are inside one \<^verbatim>\<open>try\<close>, so an
  exception of either ends there.
\<close>

definition svc_onmessage :: "jsval option \<Rightarrow> service_state \<Rightarrow> service_state" where
  "svc_onmessage parsed st =
     (case parsed of
        None \<Rightarrow> st
      | Some message \<Rightarrow> (case handleMessage message st of Inl e \<Rightarrow> st | Inr st' \<Rightarrow> st'))"

definition attemptReconnect :: "service_state \<Rightarrow> service_state" where
  "attemptReconnect st =
     st\<lparr>reconnectAttempts := reconnectAttempts st + 1,
        reconnectTimeouts := Suc (reconnectTimeouts st),
        svc_calls := svc_calls st @ [SetTimeout reconnectInterval]\<rparr>"

definition handleConnectionError :: "service_state \<Rightarrow> service_state" where
  "handleConnectionError st =
     (let st1 = notifyConnectionStatus False (st\<lparr>isConnected := False\<rparr>)
      in if reconnectAttempts st1 < maxReconnectAttempts then attemptReconnect st1 else st1)"

text \<open>\<^verbatim>\<open>connect\<close>; \<open>ctor_throws\<close> tells whether \<^verbatim>\<open>new WebSocket(this.wsUrl)\<close> throws.\<close>

definition svc_connect :: "bool \<Rightarrow> service_state \<Rightarrow> service_state" where
  "svc_connect ctor_throws st =
     (if (case ws st of None \<Rightarrow> False | Some i \<Rightarrow> ready_of (svc_sockets st) i = Some OPEN) then st
      else if ctor_throws then handleConnectionError st
      else st\<lparr>ws := Some (length (svc_sockets st)),
              svc_sockets := svc_sockets st @ [CONNECTING],
              svc_calls := svc_calls st @ [NewWebSocket (wsUrl st)]\<rparr>)"

definition clearPingInterval :: "service_state \<Rightarrow> service_state" where
  "clearPingInterval st =
     (if pingInterval st then st\<lparr>pingInterval := False, intervals := intervals st - 1\<rparr> else st)"

text \<open>\<^verbatim>\<open>disconnect\<close>\<close>

definition disconnect :: "service_state \<Rightarrow> service_state" where
  "disconnect st =
     (let st1 = (case ws st of
                   None \<Rightarrow> st
                 | Some i \<Rightarrow> st\<lparr>ws := None, svc_sockets := ws_close i (svc_sockets st),
                               svc_calls := svc_calls st @ [WsClose i]\<rparr>);
          st2 = clearPingInterval st1
      in notifyConnectionStatus False (st2\<lparr>isConnected := False\<rparr>))"

definition startPingInterval :: "service_state \<Rightarrow> service_state" where
  "startPingInterval st = st\<lparr>pingInterval := True, intervals := Suc (intervals st)\<rparr>"

definition svc_onopen :: "service_state \<Rightarrow> service_state" where
  "svc_onopen st =
     startPingInterval (notifyConnectionStatus True (st\<lparr>isConnected := True, reconnectAttempts := 0\<rparr>))"

text \<open>\<^verbatim>\<open>ws.onclose\<close>, with the code of the close event.\<close>

definition svc_onclose :: "int \<Rightarrow> service_state \<Rightarrow> service_state" where
  "svc_onclose code st =
     (let st1 = clearPingInterval (notifyConnectionStatus False (st\<lparr>isConnected := False\<rparr>))
      in if code \<noteq> 1000 \<and> reconnectAttempts st1 < maxReconnectAttempts
         then attemptReconnect st1 else st1)"

definition svc_onerror :: "service_state \<Rightarrow> service_state" where
  "svc_onerror st = handleConnectionError st"

text \<open>The callback of the timeout set by \<^verbatim>\<open>attemptReconnect\<close>, when one is pending.\<close>

definition reconnect_timeout_fired :: "bool \<Rightarrow> service_state \<Rightarrow> service_state" where
  "reconnect_timeout_fired ctor_throws st =
     (if reconnectTimeouts st = 0 then st
      else
        let st1 = st\<lparr>reconnectTimeouts := reconnectTimeouts st - 1\<rparr>
        in if reconnectAttempts st1 \<le> maxReconnectAttempts then svc_connect ctor_throws st1
           else emit ''maxReconnectAttemptsReached'' (JObj []) st1)"

text \<open>\<^verbatim>\<open>send\<close>, which returns nothing.\<close>

definition send :: "runtime \<Rightarrow> jsval \<Rightarrow> service_state \<Rightarrow> service_state" where
  "send rt message st =
     (case ws st of
        None \<Rightarrow> st
      | Some i \<Rightarrow>
          if ready_of (svc_sockets st) i = Some OPEN
          then st\<lparr>svc_calls := svc_calls st @ [WsSend i (JSON_stringify rt message)]\<rparr>
          else st)"

text \<open>One tick of the interval started by \<^verbatim>\<open>startPingInterval\<close>.\<close>

definition ping_tick :: "service_state \<Rightarrow> service_state" where
  "ping_tick st =
     (case ws st of
        None \<Rightarrow> st
      | Some i \<Rightarrow>
          if ready_of (svc_sockets st) i = Some OPEN
          then st\<lparr>svc_calls := svc_calls st @ [WsSend i ''ping'']\<rparr>
          else st)"

text \<open>
  The events the browser delivers to the service, under the same conventions as for the
  hook; a close event carries its code.
\<close>

datatype service_event =
    SvcSocketOpened nat
  | SvcSocketMessage nat "jsval option"
  | SvcSocketErrored nat
  | SvcSocketClosed nat int
  | SvcReconnectTimeout
  | SvcPingTick

definition svc_step :: "bool \<Rightarrow> service_event \<Rightarrow> service_state \<Rightarrow> service_state" where
  "svc_step ctor_throws e st =
     (case e of
        SvcSocketOpened i \<Rightarrow>
          if ready_of (svc_sockets st) i = Some CONNECTING
          then svc_onopen (st\<lparr>svc_sockets := (svc_sockets st)[i := OPEN]\<rparr>) else st
      | SvcSocketMessage i parsed \<Rightarrow>
          if ready_of (svc_sockets st) i = Some OPEN then svc_onmessage parsed st else st
      | SvcSocketErrored i \<Rightarrow>
          if ready_of (svc_sockets st) i \<noteq> None \<and> ready_of (svc_sockets st) i \<noteq> Some CLOSED
          then svc_onerror st else st
      | SvcSocketClosed i code \<Rightarrow>
          if ready_of (svc_sockets st) i \<noteq> None \<and> ready_of (svc_sockets st) i \<noteq> Some CLOSED
          then svc_onclose code (st\<lparr>svc_sockets := (svc_sockets st)[i := CLOSED]\<rparr>) else st
      | SvcReconnectTimeout \<Rightarrow> reconnect_timeout_fired ctor_throws st
      | SvcPingTick \<Rightarrow> if intervals st = 0 then st else ping_tick st)"

fun svc_run :: "bool \<Rightarrow> service_event list \<Rightarrow> service_state \<Rightarrow> service_state" where
  "svc_run ctor_throws [] st = st"
| "svc_run ctor_throws (e # es) st = svc_run ctor_throws es (svc_step ctor_throws e st)"

section \<open>The replay page\<close>

record replay_state =
  bufferRef :: "city_update_message list"
  isRecording :: bool
  isPlaying :: bool
  playIndex :: int

definition initial_replay_state :: replay_state where
  "initial_replay_state = \<lparr>bufferRef = [], isRecording = True, isPlaying = False, playIndex = 0\<rparr>"

text \<open>\<^verbatim>\<open>xs.slice(-n)\<close>: the last \<open>n\<close> elements, all of them when there are fewer.\<close>

definition slice_last :: "nat \<Rightarrow> 'a list \<Rightarrow> 'a list" where
  "slice_last n xs = drop (length xs - n) xs"

text \<open>The effect that records the incoming update.\<close>

definition record_effect :: "city_update_message option \<Rightarrow> replay_state \<Rightarrow> replay_state" where
  "record_effect latestCityUpdate st =
     (case latestCityUpdate of
        None \<Rightarrow> st
      | Some u \<Rightarrow>
          if \<not> isRecording st then st
          else
            let st1 = st\<lparr>bufferRef := slice_last 300 (bufferRef st @ [u])\<rparr>
            in if \<not> isPlaying st1 then st1\<lparr>playIndex := int (length (bufferRef st1)) - 1\<rparr>
               else st1)"

fun record_all :: "city_update_message list \<Rightarrow> replay_state \<Rightarrow> replay_state" where
  "record_all [] st = st"
| "record_all (u # us) st = record_all us (record_effect (Some u) st)"

text \<open>One tick of the playback interval, which runs only while playing.\<close>

definition playback_tick :: "replay_state \<Rightarrow> replay_state" where
  "playback_tick st =
     (if \<not> isPlaying st then st
      else
        let next = playIndex st + 1;
            mx = max 0 (int (length (bufferRef st)) - 1)
        in if next \<ge> mx then st\<lparr>isPlaying := False, playIndex := mx\<rparr>
           else st\<lparr>playIndex := next\<rparr>)"

text \<open>The slider's \<^verbatim>\<open>onValueChange\<close>.\<close>

definition seek :: "int option \<Rightarrow> replay_state \<Rightarrow> replay_state" where
  "seek v st = st\<lparr>isPlaying := False, playIndex := (case v of None \<Rightarrow> 0 | Some i \<Rightarrow> i)\<rparr>"

text \<open>
  Reading \<^verbatim>\<open>buffer[i]\<close>: JavaScript gives \<^verbatim>\<open>undefined\<close> outside the array, which is
  \<open>OutOfBounds\<close> here.
\<close>

datatype 'a array_read = OutOfBounds | Element 'a

definition array_get :: "'a list \<Rightarrow> int \<Rightarrow> 'a array_read" where
  "array_get xs i = (if 0 \<le> i \<and> i < int (length xs) then Element (xs ! nat i) else OutOfBounds)"

text \<open>\<^verbatim>\<open>current\<close>: \<open>None\<close> is the \<^verbatim>\<open>null\<close> of an empty buffer.\<close>

definition current :: "replay_state \<Rightarrow> city_update_message array_read option" where
  "current st =
     (let buffer = bufferRef st
      in if length buffer \<noteq> 0
         then Some (array_get buffer (max 0 (min (playIndex st) (int (length buffer) - 1))))
         else None)"

section \<open>Sample values\<close>

text \<open>A snapshot for the replay page, told from others by its time stamp.\<close>

definition snap :: "string \<Rightarrow> city_update_message" where
  "snap t = \<lparr>timestamp = t, city = None, cu_incidents = None, cu_ambulance_routes = None,
             event_log_tail = None\<rparr>"

text \<open>Parsed values of the shapes of \<^verbatim>\<open>types/city.ts\<close>, and frames that carry them.\<close>

definition ev :: "string \<Rightarrow> jsval" where
  "ev t = JObj [(''type'', JStr t), (''timestamp'', JStr ''2025-01-01T00:00:00Z''),
                (''data'', JNull)]"

definition incident_value :: "string \<Rightarrow> string \<Rightarrow> jsval" where
  "incident_value k st =
     JObj [(''incident_id'', JStr k), (''intersection_id'', JStr ''A''),
           (''direction'', JStr ''north''), (''incident_type'', JStr ''accident''),
           (''severity'', JNum 2), (''created_at'', JStr ''2025-01-01T00:00:00Z''),
           (''status'', JStr st)]"

definition route_value :: "string \<Rightarrow> string \<Rightarrow> jsval" where
  "route_value k st =
     JObj [(''route_id'', JStr k), (''from_intersection'', JStr ''A''),
           (''to_intersection'', JStr ''B''), (''created_at'', JStr ''2025-01-01T00:00:00Z''),
           (''eta_seconds'', JNum 30), (''status'', JStr st)]"

definition node_value :: "string \<Rightarrow> jsval" where
  "node_value k =
     JObj [(''intersection_id'', JStr k), (''name'', JStr k), (''lat'', JNum 0), (''lng'', JNum 0),
           (''neighbors'', JArr [])]"

definition incident_frame :: "jsval \<Rightarrow> jsval" where
  "incident_frame x =
     JObj [(''type'', JStr ''incident_update''), (''timestamp'', JStr ''2025-01-01T00:00:01Z''),
           (''incident'', x)]"

definition route_frame :: "jsval \<Rightarrow> jsval" where
  "route_frame x =
     JObj [(''type'', JStr ''ambulance_route_update''),
           (''timestamp'', JStr ''2025-01-01T00:00:01Z''), (''route'', x)]"

definition city_frame :: "jsval list \<Rightarrow> jsval list \<Rightarrow> jsval list \<Rightarrow> jsval list \<Rightarrow> jsval" where
  "city_frame ns is rs es =
     JObj [(''type'', JStr ''city_update''), (''timestamp'', JStr ''2025-01-01T00:00:02Z''),
           (''city'', JObj [(''city_id'', JStr ''city''), (''nodes'', JArr ns)]),
           (''incidents'', JArr is), (''ambulance_routes'', JArr rs),
           (''event_log_tail'', JArr es)]"

definition sample_runtime :: runtime where
  "sample_runtime = \<lparr>JSON_stringify = (\<lambda>v. ''{}'')\<rparr>"

text \<open>The hook after \<^verbatim>\<open>connect\<close> and the open event of its socket.\<close>

definition connected_state :: hook_state where
  "connected_state = step default_config (SocketOpened 0) (connect default_config initial_hook_state)"

section \<open>Predicates on the state of the hook\<close>

text \<open>The transport is open: the ref holds a socket whose \<^verbatim>\<open>readyState\<close> is \<^verbatim>\<open>OPEN\<close>.\<close>

definition socket_is_open :: "hook_state \<Rightarrow> bool" where
  "socket_is_open st =
     (case wsRef st of None \<Rightarrow> False | Some i \<Rightarrow> ready_of (sockets st) i = Some OPEN)"

text \<open>
  The delays scheduled so far are in non-decreasing order and none is above the interval
  times the attempt counter.
\<close>

definition backoff_inv :: "config \<Rightarrow> hook_state \<Rightarrow> bool" where
  "backoff_inv cfg st \<longleftrightarrow>
     sorted (scheduled_delays (calls st))
     \<and> (\<forall>d \<in> set (scheduled_delays (calls st)).
           d \<le> reconnectIntervalMs cfg * reconnectAttempt st)"

text \<open>The attempts are used up and no timeout is pending.\<close>

definition exhausted :: "config \<Rightarrow> hook_state \<Rightarrow> bool" where
  "exhausted cfg st \<longleftrightarrow>
     reconnectAttempt st \<ge> reconnectMaxAttempts cfg \<and> reconnectTimer st = None"

section \<open>The store: snapshots and incremental updates\<close>

lemmas hook_defs = step_def connect_def closeSocket_def clearReconnectTimer_def
  scheduleReconnect_def onopen_def onclose_def onerror_def ready_of_def ws_close_def
  initial_hook_state_def default_config_def Let_def

lemma city_update_handled:
  "get_prop msg ''type'' = Inr (JStr ''city_update'') \<Longrightarrow>
     onmessage (Some msg) st = Inr (apply_city_update msg st)"
  by (simp add: onmessage_def)

lemma city_update_step:
  "get_prop msg ''type'' = Inr (JStr ''city_update'') \<Longrightarrow> ready_of (sockets st) n = Some OPEN \<Longrightarrow>
     step cfg (SocketMessage n (Some msg)) st = apply_city_update msg st"
  by (simp add: step_def city_update_handled)

lemma typed_message_not_nullish:
  "get_prop msg k = Inr (JStr t) \<Longrightarrow> \<not> nullish msg"
  by (auto simp add: get_prop_def nullish_def split: if_splits)

text \<open>
  C1, snapshot authority. For a frame \<open>msg\<close> of type \<^verbatim>\<open>city_update\<close>: the handler sets the
  snapshot cell to the frame and the incident, route and event cells to what the frame
  carries under \<^verbatim>\<open>incidents\<close>, \<^verbatim>\<open>ambulance_routes\<close> and \<^verbatim>\<open>event_log_tail\<close> (the empty
  array for one it does not carry), whatever they held. So after any events \<open>es\<close> from any
  state (earlier snapshots and incremental updates among them), when the frame arrives on
  an open socket the node list, the incidents and the routes are those of the frame; when
  the frame carries arrays, they are exactly these arrays.
\<close>

theorem snapshot_authority:
  assumes "get_prop msg ''type'' = Inr (JStr ''city_update'')"
  shows "onmessage (Some msg) st =
           Inr (st\<lparr>cityUpdate := msg,
                   incidents := nullish_or (own_prop msg ''incidents'') (JArr []),
                   routes := nullish_or (own_prop msg ''ambulance_routes'') (JArr []),
                   events := nullish_or (own_prop msg ''event_log_tail'') (JArr [])\<rparr>)
     \<and> (ready_of (sockets (run cfg es s0)) n = Some OPEN \<longrightarrow>
          nodes_of (step cfg (SocketMessage n (Some msg)) (run cfg es s0))
            = nullish_or (opt_prop (own_prop msg ''city'') ''nodes'') (JArr [])
          \<and> incidents (step cfg (SocketMessage n (Some msg)) (run cfg es s0))
            = nullish_or (own_prop msg ''incidents'') (JArr [])
          \<and> routes (step cfg (SocketMessage n (Some msg)) (run cfg es s0))
            = nullish_or (own_prop msg ''ambulance_routes'') (JArr []))
     \<and> (ready_of (sockets (run cfg es s0)) n = Some OPEN
          \<and> own_prop (own_prop msg ''city'') ''nodes'' = JArr ns
          \<and> own_prop msg ''incidents'' = JArr is
          \<and> own_prop msg ''ambulance_routes'' = JArr rs \<longrightarrow>
          nodes_of (step cfg (SocketMessage n (Some msg)) (run cfg es s0)) = JArr ns
          \<and> incidents (step cfg (SocketMessage n (Some msg)) (run cfg es s0)) = JArr is
          \<and> routes (step cfg (SocketMessage n (Some msg)) (run cfg es s0)) = JArr rs)"
proof -
  have msg: "\<not> nullish msg"
    using assms by (rule typed_message_not_nullish)
  have nodes: "nodes_of (apply_city_update msg s)
                 = nullish_or (opt_prop (own_prop msg ''city'') ''nodes'') (JArr [])" for s
    using msg by (simp add: nodes_of_def apply_city_update_def opt_prop_def)
  have carried: "nullish_or (opt_prop (own_prop msg ''city'') ''nodes'') (JArr []) = JArr ns"
    if "own_prop (own_prop msg ''city'') ''nodes'' = JArr ns"
    using that by (auto simp add: nullish_or_def opt_prop_def nullish_def own_prop_def)
  show ?thesis
    using city_update_handled [OF assms, of st] city_update_step [OF assms, of "run cfg es s0" n cfg]
      nodes [of "run cfg es s0"] carried
    by (auto simp add: apply_city_update_def nullish_or_def nullish_def)
qed

theorem snapshot_authority_witness:
  "get_prop (city_frame [node_value ''A'', node_value ''B''] [] [route_value ''R'' ''enroute''] [])
       ''type'' = Inr (JStr ''city_update'')
   \<and> incidents (run default_config
        [SocketMessage 0 (Some (city_frame [node_value ''A'', node_value ''B''] [] [] [])),
         SocketMessage 0 (Some (incident_frame (incident_value ''X'' ''active'')))]
        connected_state) = JArr [incident_value ''X'' ''active'']
   \<and> incidents (step default_config
        (SocketMessage 0 (Some (city_frame [node_value ''A'', node_value ''B''] []
           [route_value ''R'' ''enroute''] [])))
        (run default_config
          [SocketMessage 0 (Some (city_frame [node_value ''A'', node_value ''B''] [] [] [])),
           SocketMessage 0 (Some (incident_frame (incident_value ''X'' ''active'')))]
          connected_state)) = JArr []
   \<and> routes (step default_config
        (SocketMessage 0 (Some (city_frame [node_value ''A'', node_value ''B''] []
           [route_value ''R'' ''enroute''] [])))
        (run default_config
          [SocketMessage 0 (Some (city_frame [node_value ''A'', node_value ''B''] [] [] [])),
           SocketMessage 0 (Some (incident_frame (incident_value ''X'' ''active'')))]
          connected_state)) = JArr [route_value ''R'' ''enroute'']
   \<and> nodes_of (step default_config
        (SocketMessage 0 (Some (city_frame [node_value ''A'', node_value ''B''] []
           [route_value ''R'' ''enroute''] [])))
        (run default_config
          [SocketMessage 0 (Some (city_frame [node_value ''A'', node_value ''B''] [] [] [])),
           SocketMessage 0 (Some (incident_frame (incident_value ''X'' ''active'')))]
          connected_state)) = JArr [node_value ''A'', node_value ''B'']"
  using snapshot_authority [of
      "city_frame [node_value ''A'', node_value ''B''] [] [route_value ''R'' ''enroute''] []"
      initial_hook_state default_config
      "[SocketMessage 0 (Some (city_frame [node_value ''A'', node_value ''B''] [] [] [])),
        SocketMessage 0 (Some (incident_frame (incident_value ''X'' ''active'')))]"
      connected_state 0 "[node_value ''A'', node_value ''B'']" "[]" "[route_value ''R'' ''enroute'']"]
  by (simp add: hook_defs connected_state_def city_frame_def incident_frame_def get_prop_def
        own_prop_def onmessage_def apply_city_update_def upsert_def nullish_or_def nullish_def
        nodes_of_def opt_prop_def)

lemma strict_eq_JStr: "strict_eq a (JStr k) \<longleftrightarrow> a = JStr k"
  by (cases a) simp_all

lemma filter_others_wellformed:
  assumes "get_prop x k = Inr (JStr v)"
  shows "\<forall>r \<in> set rs. \<not> nullish r \<Longrightarrow>
           filter_others k x rs = Inr (filter (\<lambda>r. own_prop r k \<noteq> JStr v) rs)"
  using assms by (induction rs) (auto simp add: get_prop_def nullish_def strict_eq_JStr)

lemma upsert_wellformed:
  assumes "own_prop x k = JStr v" and "\<forall>r \<in> set rs. \<not> nullish r"
  shows "upsert k x (JArr rs) = Inr (JArr (x # filter (\<lambda>r. own_prop r k \<noteq> JStr v) rs))"
proof -
  have "get_prop x k = Inr (JStr v)"
    using assms(1) by (auto simp add: get_prop_def own_prop_def)
  then show ?thesis
    using filter_others_wellformed [OF _ assms(2)] by (simp add: upsert_def)
qed

text \<open>
  What the handler does with an \<^verbatim>\<open>incident_update\<close> that carries no incident: on an
  empty collection it stores \<^verbatim>\<open>[undefined]\<close>; on a collection with an entry the updater
  throws. The same holds for routes.
\<close>

lemma update_without_payload:
  "onmessage (Some (JObj [(''type'', JStr ''incident_update'')])) (st\<lparr>incidents := JArr []\<rparr>)
     = Inr (st\<lparr>incidents := JArr [JUndefined]\<rparr>)"
  "\<not> nullish r \<Longrightarrow>
     onmessage (Some (JObj [(''type'', JStr ''incident_update'')])) (st\<lparr>incidents := JArr (r # rs)\<rparr>)
       = Inl TypeError"
  "onmessage (Some (JObj [(''type'', JStr ''ambulance_route_update'')])) (st\<lparr>routes := JArr []\<rparr>)
     = Inr (st\<lparr>routes := JArr [JUndefined]\<rparr>)"
  "\<not> nullish r \<Longrightarrow>
     onmessage (Some (JObj [(''type'', JStr ''ambulance_route_update'')])) (st\<lparr>routes := JArr (r # rs)\<rparr>)
       = Inl TypeError"
  by (simp_all add: onmessage_def get_prop_def own_prop_def upsert_def nullish_def)

text \<open>
  C2, incremental upsert. A frame of type \<^verbatim>\<open>incident_update\<close> carries an incident whose
  \<^verbatim>\<open>incident_id\<close> is the string \<open>k\<close>; the incident cell holds an array \<open>prev\<close> of entries,
  none of them \<^verbatim>\<open>null\<close> or \<^verbatim>\<open>undefined\<close>. Then the handler throws nothing and changes
  only the incident cell, which becomes the incident of the frame followed by the entries
  of \<open>prev\<close> with another id, in their order; so does the event of that frame on an open
  socket. In the new array the incident of the frame is the only entry with id \<open>k\<close>, and
  the entries with other ids are those of \<open>prev\<close>. The same holds for a frame of type
  \<^verbatim>\<open>ambulance_route_update\<close>, its route, \<^verbatim>\<open>route_id\<close> and the route cell.
\<close>

theorem incremental_upsert:
  "(get_prop msg ''type'' = Inr (JStr ''incident_update'')
      \<and> own_prop (own_prop msg ''incident'') ''incident_id'' = JStr k
      \<and> incidents st = JArr prev \<and> (\<forall>i \<in> set prev. \<not> nullish i) \<longrightarrow>
      onmessage (Some msg) st
        = Inr (st\<lparr>incidents := JArr (own_prop msg ''incident''
                 # filter (\<lambda>i. own_prop i ''incident_id'' \<noteq> JStr k) prev)\<rparr>)
      \<and> (ready_of (sockets st) n = Some OPEN \<longrightarrow>
           step cfg (SocketMessage n (Some msg)) st
             = st\<lparr>incidents := JArr (own_prop msg ''incident''
                 # filter (\<lambda>i. own_prop i ''incident_id'' \<noteq> JStr k) prev)\<rparr>)
      \<and> filter (\<lambda>i. own_prop i ''incident_id'' = JStr k)
           (own_prop msg ''incident'' # filter (\<lambda>i. own_prop i ''incident_id'' \<noteq> JStr k) prev)
          = [own_prop msg ''incident'']
      \<and> filter (\<lambda>i. own_prop i ''incident_id'' \<noteq> JStr k)
           (own_prop msg ''incident'' # filter (\<lambda>i. own_prop i ''incident_id'' \<noteq> JStr k) prev)
          = filter (\<lambda>i. own_prop i ''incident_id'' \<noteq> JStr k) prev)
   \<and> (get_prop msg ''type'' = Inr (JStr ''ambulance_route_update'')
      \<and> own_prop (own_prop msg ''route'') ''route_id'' = JStr k
      \<and> routes st = JArr prev \<and> (\<forall>r \<in> set prev. \<not> nullish r) \<longrightarrow>
      onmessage (Some msg) st
        = Inr (st\<lparr>routes := JArr (own_prop msg ''route''
                 # filter (\<lambda>r. own_prop r ''route_id'' \<noteq> JStr k) prev)\<rparr>)
      \<and> (ready_of (sockets st) n = Some OPEN \<longrightarrow>
           step cfg (SocketMessage n (Some msg)) st
             = st\<lparr>routes := JArr (own_prop msg ''route''
                 # filter (\<lambda>r. own_prop r ''route_id'' \<noteq> JStr k) prev)\<rparr>)
      \<and> filter (\<lambda>r. own_prop r ''route_id'' = JStr k)
           (own_prop msg ''route'' # filter (\<lambda>r. own_prop r ''route_id'' \<noteq> JStr k) prev)
          = [own_prop msg ''route'']
      \<and> filter (\<lambda>r. own_prop r ''route_id'' \<noteq> JStr k)
           (own_prop msg ''route'' # filter (\<lambda>r. own_prop r ''route_id'' \<noteq> JStr k) prev)
          = filter (\<lambda>r. own_prop r ''route_id'' \<noteq> JStr k) prev)"
proof -
  have inc: "onmessage (Some msg) st
        = Inr (st\<lparr>incidents := JArr (own_prop msg ''incident''
                 # filter (\<lambda>i. own_prop i ''incident_id'' \<noteq> JStr k) prev)\<rparr>)"
    if "get_prop msg ''type'' = Inr (JStr ''incident_update'')"
      and "own_prop (own_prop msg ''incident'') ''incident_id'' = JStr k"
      and "incidents st = JArr prev" and "\<forall>i \<in> set prev. \<not> nullish i"
    using that upsert_wellformed [of "own_prop msg ''incident''" "''incident_id''" k prev]
    by (simp add: onmessage_def)
  have rou: "onmessage (Some msg) st
        = Inr (st\<lparr>routes := JArr (own_prop msg ''route''
                 # filter (\<lambda>r. own_prop r ''route_id'' \<noteq> JStr k) prev)\<rparr>)"
    if "get_prop msg ''type'' = Inr (JStr ''ambulance_route_update'')"
      and "own_prop (own_prop msg ''route'') ''route_id'' = JStr k"
      and "routes st = JArr prev" and "\<forall>r \<in> set prev. \<not> nullish r"
    using that upsert_wellformed [of "own_prop msg ''route''" "''route_id''" k prev]
    by (simp add: onmessage_def)
  have once: "filter (\<lambda>r. own_prop r f = JStr k) (x # filter (\<lambda>r. own_prop r f \<noteq> JStr k) prev) = [x]
      \<and> filter (\<lambda>r. own_prop r f \<noteq> JStr k) (x # filter (\<lambda>r. own_prop r f \<noteq> JStr k) prev)
          = filter (\<lambda>r. own_prop r f \<noteq> JStr k) prev"
    if "own_prop x f = JStr k" for x f
    using that by (simp add: filter_empty_conv)
  show ?thesis
    using inc rou once [of "own_prop msg ''incident''" "''incident_id''"]
      once [of "own_prop msg ''route''" "''route_id''"]
    by (simp add: step_def)
qed

theorem incremental_upsert_witness:
  "get_prop (incident_frame (incident_value ''A'' ''cleared'')) ''type'' = Inr (JStr ''incident_update'')
   \<and> incidents (run default_config
        [SocketMessage 0 (Some (incident_frame (incident_value ''B'' ''active''))),
         SocketMessage 0 (Some (incident_frame (incident_value ''A'' ''active'')))]
        connected_state)
      = JArr [incident_value ''A'' ''active'', incident_value ''B'' ''active'']
   \<and> incidents (step default_config
        (SocketMessage 0 (Some (incident_frame (incident_value ''A'' ''cleared''))))
        (run default_config
          [SocketMessage 0 (Some (incident_frame (incident_value ''B'' ''active''))),
           SocketMessage 0 (Some (incident_frame (incident_value ''A'' ''active'')))]
          connected_state))
      = JArr [incident_value ''A'' ''cleared'', incident_value ''B'' ''active'']
   \<and> get_prop (route_frame (route_value ''R'' ''arrived'')) ''type''
      = Inr (JStr ''ambulance_route_update'')
   \<and> routes (step default_config
        (SocketMessage 0 (Some (route_frame (route_value ''R'' ''arrived''))))
        (run default_config
          [SocketMessage 0 (Some (route_frame (route_value ''R'' ''enroute'')))]
          connected_state))
      = JArr [route_value ''R'' ''arrived'']"
  using incremental_upsert [of "incident_frame (incident_value ''A'' ''cleared'')" "''A''"
      "run default_config
          [SocketMessage 0 (Some (incident_frame (incident_value ''B'' ''active''))),
           SocketMessage 0 (Some (incident_frame (incident_value ''A'' ''active'')))]
          connected_state"
      "[incident_value ''A'' ''active'', incident_value ''B'' ''active'']" 0 default_config]
    incremental_upsert [of "route_frame (route_value ''R'' ''arrived'')" "''R''"
      "run default_config
          [SocketMessage 0 (Some (route_frame (route_value ''R'' ''enroute'')))]
          connected_state"
      "[route_value ''R'' ''enroute'']" 0 default_config]
  by (simp add: hook_defs connected_state_def incident_frame_def route_frame_def
        incident_value_def route_value_def get_prop_def own_prop_def onmessage_def upsert_def
        nullish_def)

text \<open>
  C8, as amended. A frame of type \<^verbatim>\<open>city_update\<close> makes the handler replace the retained
  event log by the event-log tail the frame carries (by the empty log when it carries
  none); what was retained before is not kept. So does the event of that frame on an open
  socket.
\<close>

theorem event_log_replaced:
  assumes "get_prop msg ''type'' = Inr (JStr ''city_update'')"
  shows "(\<exists>st'. onmessage (Some msg) st = Inr st'
            \<and> events st' = nullish_or (own_prop msg ''event_log_tail'') (JArr []))
     \<and> (ready_of (sockets st) n = Some OPEN \<longrightarrow>
          events (step cfg (SocketMessage n (Some msg)) st)
            = nullish_or (own_prop msg ''event_log_tail'') (JArr []))
     \<and> (ready_of (sockets st) n = Some OPEN \<and> own_prop msg ''event_log_tail'' = JArr tail \<longrightarrow>
          events (step cfg (SocketMessage n (Some msg)) st) = JArr tail)"
  using city_update_handled [OF assms, of st] city_update_step [OF assms, of st n cfg]
  by (auto simp add: apply_city_update_def nullish_or_def nullish_def)

theorem event_log_replaced_witness:
  "get_prop (city_frame [] [] [] [ev ''new'']) ''type'' = Inr (JStr ''city_update'')
   \<and> ready_of (sockets (connected_state\<lparr>events := JArr [ev ''old'']\<rparr>)) 0 = Some OPEN
   \<and> events (step default_config (SocketMessage 0 (Some (city_frame [] [] [] [ev ''new''])))
        (connected_state\<lparr>events := JArr [ev ''old'']\<rparr>)) = JArr [ev ''new'']"
  using event_log_replaced [of "city_frame [] [] [] [ev ''new'']"
      "connected_state\<lparr>events := JArr [ev ''old'']\<rparr>" 0 default_config "[ev ''new'']"]
  by (simp add: hook_defs connected_state_def city_frame_def get_prop_def own_prop_def
        nullish_or_def nullish_def)

text \<open>
  C8 as stated fails: after a snapshot whose tail is the event \<open>old\<close>, a snapshot whose tail
  is \<open>new\<close> leaves only \<open>new\<close> in the log, not \<open>old\<close> followed by \<open>new\<close>.
\<close>

theorem event_log_append_counterexample:
  "events (run default_config
       [SocketMessage 0 (Some (city_frame [] [] [] [ev ''old''])),
        SocketMessage 0 (Some (city_frame [] [] [] [ev ''new'']))] connected_state)
     = JArr [ev ''new'']
   \<and> events (run default_config
       [SocketMessage 0 (Some (city_frame [] [] [] [ev ''old''])),
        SocketMessage 0 (Some (city_frame [] [] [] [ev ''new'']))] connected_state)
     \<noteq> JArr [ev ''old'', ev ''new'']"
  by (simp add: hook_defs connected_state_def city_frame_def get_prop_def own_prop_def
        onmessage_def apply_city_update_def nullish_or_def nullish_def ev_def)

section \<open>Receiving frames\<close>

lemma onmessage_unparseable: "onmessage None st = Inr st"
  by (simp add: onmessage_def)

lemma onmessage_no_string_type:
  "msg \<noteq> JNull \<Longrightarrow> msg \<noteq> JUndefined \<Longrightarrow> \<forall>s. own_prop msg ''type'' \<noteq> JStr s \<Longrightarrow>
     onmessage (Some msg) st = Inr st"
  by (simp add: onmessage_def get_prop_def)

lemma handleMessage_never_throws: "\<exists>st'. handleMessage message st = Inr st'"
  by (cases message) (simp_all add: handleMessage_def truthy_def get_prop_def split: jsval.splits)

lemma svc_onmessage_malformed:
  "parsed = None \<or> (\<exists>m. parsed = Some m \<and> (\<forall>s. own_prop m ''type'' \<noteq> JStr s)) \<Longrightarrow>
     svc_onmessage parsed st = st"
  by (auto simp add: svc_onmessage_def handleMessage_def get_prop_def
        split: jsval.splits sum.splits)

text \<open>
  C3, codec totality, does not hold for \<^verbatim>\<open>useCityWebSocket\<close>: the frame \<^verbatim>\<open>null\<close> is JSON,
  parses to \<^verbatim>\<open>null\<close>, a value without a string \<^verbatim>\<open>type\<close>, and the handler then throws a
  \<^verbatim>\<open>TypeError\<close> instead of dropping it. (Frames that are not JSON, and parsed values other
  than \<^verbatim>\<open>null\<close> without a string \<^verbatim>\<open>type\<close>, are dropped: the two lemmas on \<open>onmessage\<close>
  above. \<^verbatim>\<open>WebSocketService\<close> drops all of them, \<^verbatim>\<open>null\<close> too: the two lemmas on it.)
\<close>

theorem null_frame_throws:
  "onmessage (Some JNull) st = Inl TypeError"
  by (simp add: onmessage_def get_prop_def)

text \<open>
  C7, robustness against unknown types. A parsed message whose \<^verbatim>\<open>type\<close> is a string other
  than the three kinds the hook merges leaves the whole state of the hook as it was (so
  the node list, the incidents, the routes and the event log, and the status and last
  error too), and no exception leaves the handler. In \<^verbatim>\<open>WebSocketService\<close> a type outside
  the cases of its \<^verbatim>\<open>switch\<close> emits nothing and changes nothing.
\<close>

theorem unknown_type_ignored:
  assumes "get_prop msg ''type'' = Inr (JStr t)"
    and "t \<noteq> ''city_update''" and "t \<noteq> ''ambulance_route_update''" and "t \<noteq> ''incident_update''"
  shows "onmessage (Some msg) st = Inr st
     \<and> step cfg (SocketMessage i (Some msg)) st = st
     \<and> (t \<notin> {''simulation_update'', ''connection_status'', ''pong'', ''error''} \<longrightarrow>
          handleMessage msg sv = Inr sv \<and> svc_onmessage (Some msg) sv = sv)"
  using assms by (simp add: onmessage_def step_def handleMessage_def svc_onmessage_def)

theorem unknown_type_ignored_witness:
  "get_prop (JObj [(''type'', JStr ''unrecognized_kind'')]) ''type'' = Inr (JStr ''unrecognized_kind'')
   \<and> onmessage (Some (JObj [(''type'', JStr ''unrecognized_kind'')]))
        (initial_hook_state\<lparr>events := JArr [ev ''old'']\<rparr>)
      = Inr (initial_hook_state\<lparr>events := JArr [ev ''old'']\<rparr>)
   \<and> handleMessage (JObj [(''type'', JStr ''unrecognized_kind'')]) initial_service_state
      = Inr initial_service_state"
  using unknown_type_ignored [of "JObj [(''type'', JStr ''unrecognized_kind'')]"
      "''unrecognized_kind''" "initial_hook_state\<lparr>events := JArr [ev ''old'']\<rparr>"
      default_config 0 initial_service_state]
  by (simp add: get_prop_def own_prop_def)

section \<open>Sending\<close>

lemma send_service:
  "send rt message st =
     (if (case ws st of None \<Rightarrow> False | Some i \<Rightarrow> ready_of (svc_sockets st) i = Some OPEN)
      then st\<lparr>svc_calls := svc_calls st @ [WsSend (the (ws st)) (JSON_stringify rt message)]\<rparr>
      else st)"
  by (simp add: send_def split: option.splits)

text \<open>
  C5, sending while not connected. When the transport is not open, \<^verbatim>\<open>sendMessage\<close>
  returns \<^verbatim>\<open>false\<close> and leaves the state as it was: nothing is sent and the store is
  untouched. When it is open, \<^verbatim>\<open>sendMessage\<close> returns \<^verbatim>\<open>true\<close> and its one effect is
  sending the serialised message on the current socket.
\<close>

theorem send_only_when_open:
  "(\<not> socket_is_open st \<longrightarrow> sendMessage rt msg st = (False, st))
   \<and> (socket_is_open st \<longrightarrow>
        sendMessage rt msg st
          = (True, st\<lparr>calls := calls st @ [WsSend (the (wsRef st)) (JSON_stringify rt msg)]\<rparr>))"
  by (auto simp add: socket_is_open_def sendMessage_def split: option.splits)

theorem send_only_when_open_witness:
  "\<not> socket_is_open (connect default_config initial_hook_state)
   \<and> sendMessage sample_runtime (JObj [(''type'', JStr ''dispatch_ambulance'')])
        (connect default_config initial_hook_state)
      = (False, connect default_config initial_hook_state)
   \<and> socket_is_open (step default_config (SocketOpened 0)
        (connect default_config initial_hook_state))
   \<and> calls (snd (sendMessage sample_runtime (JObj [(''type'', JStr ''ping'')])
        (step default_config (SocketOpened 0)
           (connect default_config initial_hook_state))))
      = [NewWebSocket ''ws://localhost:8001/ws/city'', WsSend 0 ''{}'']
   \<and> fst (sendMessage sample_runtime (JObj [(''type'', JStr ''ping'')])
        (step default_config (SocketOpened 0)
           (connect default_config initial_hook_state)))"
  using send_only_when_open [of "connect default_config initial_hook_state" sample_runtime
          "JObj [(''type'', JStr ''dispatch_ambulance'')]"]
        send_only_when_open [of "step default_config (SocketOpened 0)
           (connect default_config initial_hook_state)" sample_runtime
          "JObj [(''type'', JStr ''ping'')]"]
  by (simp add: hook_defs socket_is_open_def sample_runtime_def)

section \<open>Reconnecting\<close>

lemma scheduled_delays_append:
  "scheduled_delays (xs @ ys) = scheduled_delays xs @ scheduled_delays ys"
  by (induction xs rule: scheduled_delays.induct) simp_all

lemma closeSocket_inv: "backoff_inv cfg st \<Longrightarrow> backoff_inv cfg (closeSocket st)"
  by (auto simp add: backoff_inv_def closeSocket_def clearReconnectTimer_def Let_def
        scheduled_delays_append split: option.splits)

lemma scheduleReconnect_inv:
  assumes "0 \<le> reconnectIntervalMs cfg" and "backoff_inv cfg st"
  shows "backoff_inv cfg (scheduleReconnect cfg st)"
proof -
  have grow: "reconnectIntervalMs cfg * reconnectAttempt st
                \<le> reconnectIntervalMs cfg * (reconnectAttempt st + 1)"
    using assms(1) by (simp add: mult_left_mono)
  show ?thesis
    using assms(2) grow
    by (fastforce simp add: backoff_inv_def scheduleReconnect_def clearReconnectTimer_def Let_def
          scheduled_delays_append sorted_append)
qed

lemma connect_inv:
  assumes "0 \<le> reconnectIntervalMs cfg" and "backoff_inv cfg st"
  shows "backoff_inv cfg (connect cfg st)"
proof -
  have a: "backoff_inv cfg (closeSocket st)"
    using assms(2) by (rule closeSocket_inv)
  have b: "backoff_inv cfg (s\<lparr>status := x, lastError := y\<rparr>)" if "backoff_inv cfg s" for s x y
    using that by (simp add: backoff_inv_def)
  show ?thesis
  proof (cases "ws_ctor_error cfg")
    case None
    then show ?thesis
      using a by (simp add: connect_def Let_def backoff_inv_def scheduled_delays_append)
  next
    case (Some m)
    have "backoff_inv cfg (scheduleReconnect cfg
            ((closeSocket st)\<lparr>status := StError, lastError := Some (ConstructorError m)\<rparr>))"
      using scheduleReconnect_inv [OF assms(1) b [OF a]] .
    then show ?thesis
      using Some by (simp add: connect_def Let_def)
  qed
qed

lemma onmessage_connection:
  "onmessage parsed st = Inr st' \<Longrightarrow>
     calls st' = calls st \<and> reconnectAttempt st' = reconnectAttempt st
     \<and> reconnectTimer st' = reconnectTimer st \<and> sockets st' = sockets st"
  by (auto simp add: onmessage_def apply_city_update_def
        split: option.splits sum.splits if_splits)

lemma step_inv:
  assumes "0 \<le> reconnectIntervalMs cfg" and "\<not> is_open_event e" and "backoff_inv cfg st"
  shows "backoff_inv cfg (step cfg e st)"
proof (cases e)
  case (SocketOpened i)
  then show ?thesis using assms(2) by simp
next
  case (SocketMessage i parsed)
  show ?thesis
  proof (cases "onmessage parsed st")
    case (Inl err)
    then show ?thesis using assms(3) SocketMessage by (simp add: step_def)
  next
    case (Inr st')
    then have "backoff_inv cfg st'"
      using assms(3) onmessage_connection [OF Inr] by (simp add: backoff_inv_def)
    then show ?thesis using assms(3) SocketMessage Inr by (simp add: step_def)
  qed
next
  case (SocketErrored i)
  then show ?thesis using assms(3) by (simp add: step_def onerror_def backoff_inv_def)
next
  case (SocketClosed i)
  have "backoff_inv cfg (st\<lparr>sockets := (sockets st)[i := CLOSED], status := StDisconnected\<rparr>)"
    using assms(3) by (simp add: backoff_inv_def)
  then have "backoff_inv cfg (onclose cfg (st\<lparr>sockets := (sockets st)[i := CLOSED]\<rparr>))"
    using scheduleReconnect_inv [OF assms(1)] by (simp add: onclose_def)
  then show ?thesis using assms(3) SocketClosed by (simp add: step_def)
next
  case ReconnectTimerFired
  show ?thesis
  proof (cases "reconnectTimer st")
    case None
    then show ?thesis using assms(3) ReconnectTimerFired by (simp add: step_def)
  next
    case (Some d)
    have "backoff_inv cfg (st\<lparr>reconnectTimer := None\<rparr>)"
      using assms(3) by (simp add: backoff_inv_def)
    then show ?thesis
      using connect_inv [OF assms(1)] Some ReconnectTimerFired by (simp add: step_def)
  qed
qed

lemma run_inv:
  "0 \<le> reconnectIntervalMs cfg \<Longrightarrow> \<forall>e \<in> set es. \<not> is_open_event e \<Longrightarrow> backoff_inv cfg st \<Longrightarrow>
     backoff_inv cfg (run cfg es st)"
  by (induction es arbitrary: st) (simp_all add: step_inv)

lemma step_exhausted:
  assumes "\<not> is_open_event e" and "exhausted cfg st"
  shows "exhausted cfg (step cfg e st) \<and> calls (step cfg e st) = calls st
         \<and> length (sockets (step cfg e st)) = length (sockets st)"
proof (cases e)
  case (SocketMessage i parsed)
  show ?thesis
  proof (cases "onmessage parsed st")
    case (Inl err)
    then show ?thesis using assms(2) SocketMessage by (simp add: step_def)
  next
    case (Inr st')
    then show ?thesis
      using assms(2) SocketMessage onmessage_connection [OF Inr]
      by (simp add: step_def exhausted_def)
  qed
qed (use assms in \<open>simp_all add: step_def exhausted_def onerror_def onclose_def
       scheduleReconnect_def clearReconnectTimer_def Let_def\<close>)

lemma run_exhausted:
  "\<forall>e \<in> set es. \<not> is_open_event e \<Longrightarrow> exhausted cfg st \<Longrightarrow>
     exhausted cfg (run cfg es st) \<and> calls (run cfg es st) = calls st
     \<and> length (sockets (run cfg es st)) = length (sockets st)"
proof (induction es arbitrary: st)
  case Nil
  then show ?case by simp
next
  case (Cons e es)
  have e: "\<not> is_open_event e" and es: "\<forall>x \<in> set es. \<not> is_open_event x"
    using Cons.prems(1) by simp_all
  note s = step_exhausted [OF e Cons.prems(2)]
  from Cons.IH [OF es, of "step cfg e st"] s show ?case by simp
qed

text \<open>
  The service waits the same 5000 ms before every attempt, and at the maximum neither a
  close nor an error sets a further timeout.
\<close>

lemma connect_by_caller:
  "ws_ctor_error cfg = None \<Longrightarrow>
     calls (connect cfg st) = calls (closeSocket st) @ [NewWebSocket (url cfg)]
     \<and> status (connect cfg st) = StConnecting
     \<and> wsRef (connect cfg st) = Some (length (sockets st))"
  by (simp add: connect_def closeSocket_def clearReconnectTimer_def ws_close_def Let_def
        split: option.splits)

lemma attemptReconnect_delay:
  "svc_calls (attemptReconnect st) = svc_calls st @ [SetTimeout 5000]"
  by (simp add: attemptReconnect_def reconnectInterval_def)

lemma service_stops_at_max:
  "reconnectAttempts st \<ge> maxReconnectAttempts \<Longrightarrow>
     svc_calls (svc_onclose code st) = svc_calls st
     \<and> reconnectTimeouts (svc_onclose code st) = reconnectTimeouts st
     \<and> svc_calls (svc_onerror st) = svc_calls st
     \<and> reconnectTimeouts (svc_onerror st) = reconnectTimeouts st"
  by (simp add: svc_onclose_def svc_onerror_def handleConnectionError_def clearPingInterval_def
        notifyConnectionStatus_def Let_def)

text \<open>
  C4, reconnect backoff, for a reconnect interval that is not negative. Along any
  sequence \<open>es\<close> of socket and timer events in which no socket opens, from any state, the
  delays of the timeouts the hook sets are in non-decreasing order (the record of calls is
  emptied first, so that it holds the calls of this sequence). A close event below the maximum
  raises the attempt counter by one and sets a timeout of the interval times the new
  counter. A close event at or above the maximum sets the status to error and sets no
  timeout, and from there no such sequence of events makes the hook call the browser
  again: no socket is created and no timeout is set until the component calls
  \<^verbatim>\<open>connect\<close>.
\<close>

theorem reconnect_backoff:
  assumes "0 \<le> reconnectIntervalMs cfg" and "\<forall>e \<in> set es. \<not> is_open_event e"
  shows "sorted (scheduled_delays (calls (run cfg es (st\<lparr>calls := []\<rparr>))))
   \<and> (reconnectAttempt sa < reconnectMaxAttempts cfg \<longrightarrow>
        reconnectAttempt (onclose cfg sa) = reconnectAttempt sa + 1
        \<and> reconnectTimer (onclose cfg sa)
            = Some (reconnectIntervalMs cfg * (reconnectAttempt sa + 1))
        \<and> calls (onclose cfg sa)
            = calls sa @ [SetTimeout (reconnectIntervalMs cfg * (reconnectAttempt sa + 1))])
   \<and> (reconnectAttempt sx \<ge> reconnectMaxAttempts cfg \<longrightarrow>
        status (onclose cfg sx) = StError
        \<and> reconnectTimer (onclose cfg sx) = None
        \<and> calls (onclose cfg sx) = calls sx
        \<and> calls (run cfg es (onclose cfg sx)) = calls sx
        \<and> length (sockets (run cfg es (onclose cfg sx))) = length (sockets sx)
        \<and> reconnectTimer (run cfg es (onclose cfg sx)) = None)"
proof -
  have "backoff_inv cfg (st\<lparr>calls := []\<rparr>)"
    by (simp add: backoff_inv_def)
  then have one: "sorted (scheduled_delays (calls (run cfg es (st\<lparr>calls := []\<rparr>))))"
    using run_inv [OF assms] by (simp add: backoff_inv_def)
  have two: "reconnectAttempt sa < reconnectMaxAttempts cfg \<Longrightarrow>
        reconnectAttempt (onclose cfg sa) = reconnectAttempt sa + 1
        \<and> reconnectTimer (onclose cfg sa)
            = Some (reconnectIntervalMs cfg * (reconnectAttempt sa + 1))
        \<and> calls (onclose cfg sa)
            = calls sa @ [SetTimeout (reconnectIntervalMs cfg * (reconnectAttempt sa + 1))]"
    by (simp add: onclose_def scheduleReconnect_def clearReconnectTimer_def Let_def)
  have three: "status (onclose cfg sx) = StError \<and> reconnectTimer (onclose cfg sx) = None
        \<and> calls (onclose cfg sx) = calls sx \<and> sockets (onclose cfg sx) = sockets sx
        \<and> exhausted cfg (onclose cfg sx)"
    if "reconnectAttempt sx \<ge> reconnectMaxAttempts cfg"
    using that
    by (simp add: onclose_def scheduleReconnect_def clearReconnectTimer_def Let_def exhausted_def)
  have four: "calls (run cfg es (onclose cfg sx)) = calls sx
        \<and> length (sockets (run cfg es (onclose cfg sx))) = length (sockets sx)
        \<and> reconnectTimer (run cfg es (onclose cfg sx)) = None"
    if "reconnectAttempt sx \<ge> reconnectMaxAttempts cfg"
    using run_exhausted [OF assms(2), of cfg "onclose cfg sx"] three [OF that]
    by (simp add: exhausted_def)
  show ?thesis
    using one two three four by blast
qed

theorem reconnect_backoff_witness:
  "0 \<le> reconnectIntervalMs default_config
   \<and> filter is_open_event
         [SocketClosed 0, ReconnectTimerFired, SocketClosed 1, ReconnectTimerFired, SocketClosed 2]
       = []
   \<and> scheduled_delays (calls (run default_config
         [SocketClosed 0, ReconnectTimerFired, SocketClosed 1, ReconnectTimerFired, SocketClosed 2]
         ((connect default_config initial_hook_state)\<lparr>calls := []\<rparr>))) = [1000, 2000, 3000]
   \<and> sorted (scheduled_delays (calls (run default_config
         [SocketClosed 0, ReconnectTimerFired, SocketClosed 1, ReconnectTimerFired, SocketClosed 2]
         ((connect default_config initial_hook_state)\<lparr>calls := []\<rparr>))))
   \<and> reconnectAttempt initial_hook_state < reconnectMaxAttempts default_config
   \<and> reconnectTimer (onclose default_config initial_hook_state) = Some 1000
   \<and> reconnectAttempt (initial_hook_state\<lparr>reconnectAttempt := 10\<rparr>)
       \<ge> reconnectMaxAttempts default_config
   \<and> status (onclose default_config (initial_hook_state\<lparr>reconnectAttempt := 10\<rparr>)) = StError
   \<and> reconnectTimer (onclose default_config (initial_hook_state\<lparr>reconnectAttempt := 10\<rparr>)) = None"
  using reconnect_backoff [of default_config
      "[SocketClosed 0, ReconnectTimerFired, SocketClosed 1, ReconnectTimerFired, SocketClosed 2]"
      "connect default_config initial_hook_state" initial_hook_state
      "initial_hook_state\<lparr>reconnectAttempt := 10\<rparr>"]
  by (simp add: hook_defs)

section \<open>Closing on purpose\<close>

lemmas service_defs = svc_connect_def svc_onerror_def handleConnectionError_def
  attemptReconnect_def disconnect_def clearPingInterval_def notifyConnectionStatus_def
  reconnect_timeout_fired_def svc_onopen_def svc_onclose_def startPingInterval_def emit_def
  initial_service_state_def maxReconnectAttempts_def reconnectInterval_def ready_of_def
  ws_close_def Let_def

text \<open>
  C6, an intentional disconnect is terminal, does not hold for the code. In the hook: the
  component connects, socket 0 opens, the component calls \<^verbatim>\<open>closeSocket\<close>, which clears
  the ref and the timer and closes the socket; the close event of socket 0 then runs
  \<^verbatim>\<open>ws.onclose\<close>, which sets a timeout of 1000 ms, and when that fires the hook creates
  socket 1. In the service: \<^verbatim>\<open>connect\<close>, then socket 0 fails, with an error event and a
  close event of code 1006, each of which sets a reconnect timeout; \<^verbatim>\<open>disconnect\<close> leaves
  both timeouts pending, and when the first fires the service creates socket 1. Neither
  run has a call of \<^verbatim>\<open>connect\<close> by the caller after the disconnect.
\<close>

theorem intentional_close_reconnects:
  "wsRef (closeSocket (step default_config (SocketOpened 0)
            (connect default_config initial_hook_state))) = None
   \<and> reconnectTimer (closeSocket (step default_config (SocketOpened 0)
            (connect default_config initial_hook_state))) = None
   \<and> reconnectTimer (step default_config (SocketClosed 0)
         (closeSocket (step default_config (SocketOpened 0)
            (connect default_config initial_hook_state)))) = Some 1000
   \<and> sockets (run default_config [SocketClosed 0, ReconnectTimerFired]
         (closeSocket (step default_config (SocketOpened 0)
            (connect default_config initial_hook_state)))) = [CLOSED, CONNECTING]
   \<and> calls (run default_config [SocketClosed 0, ReconnectTimerFired]
         (closeSocket (step default_config (SocketOpened 0)
            (connect default_config initial_hook_state))))
      = [NewWebSocket ''ws://localhost:8001/ws/city'', WsClose 0, SetTimeout 1000,
         NewWebSocket ''ws://localhost:8001/ws/city'']
   \<and> ws (disconnect (svc_run False [SvcSocketErrored 0, SvcSocketClosed 0 1006]
            (svc_connect False initial_service_state))) = None
   \<and> pingInterval (disconnect (svc_run False [SvcSocketErrored 0, SvcSocketClosed 0 1006]
            (svc_connect False initial_service_state))) = False
   \<and> reconnectTimeouts (disconnect (svc_run False [SvcSocketErrored 0, SvcSocketClosed 0 1006]
            (svc_connect False initial_service_state))) = 2
   \<and> svc_sockets (svc_run False [SvcReconnectTimeout]
        (disconnect (svc_run False [SvcSocketErrored 0, SvcSocketClosed 0 1006]
            (svc_connect False initial_service_state)))) = [CLOSED, CONNECTING]
   \<and> svc_calls (svc_run False [SvcReconnectTimeout]
        (disconnect (svc_run False [SvcSocketErrored 0, SvcSocketClosed 0 1006]
            (svc_connect False initial_service_state))))
      = [NewWebSocket ''ws://localhost:8001/ws/city'', SetTimeout 5000, SetTimeout 5000,
         WsClose 0, NewWebSocket ''ws://localhost:8001/ws/city'']"
  by (simp add: hook_defs service_defs svc_step_def)

section \<open>The replay buffer\<close>

lemma slice_last_length: "length (slice_last n xs) = min (length xs) n"
  by (simp add: slice_last_def)

lemma slice_last_snoc: "slice_last n (slice_last n xs @ ys) = slice_last n (xs @ ys)"
proof -
  have "length xs + length ys - (length xs - n + n) + (length xs - n) = length xs + length ys - n"
    by arith
  then show ?thesis by (simp add: slice_last_def)
qed

lemma record_effect_buffer:
  "isRecording st \<Longrightarrow>
     bufferRef (record_effect (Some u) st) = slice_last 300 (bufferRef st @ [u])
     \<and> isRecording (record_effect (Some u) st)"
  by (simp add: record_effect_def Let_def)

lemma record_all_buffer:
  "isRecording st \<Longrightarrow> length (bufferRef st) \<le> 300 \<Longrightarrow>
     bufferRef (record_all us st) = slice_last 300 (bufferRef st @ us)"
proof (induction us arbitrary: st)
  case Nil
  then show ?case by (simp add: slice_last_def)
next
  case (Cons u us)
  let ?st1 = "record_effect (Some u) st"
  have rec: "isRecording ?st1" and buf: "bufferRef ?st1 = slice_last 300 (bufferRef st @ [u])"
    using Cons.prems(1) by (simp_all add: record_effect_buffer)
  have len: "length (bufferRef ?st1) \<le> 300"
    by (simp add: buf slice_last_length)
  have "bufferRef (record_all us ?st1) = slice_last 300 (bufferRef ?st1 @ us)"
    using Cons.IH [OF rec len] .
  then show ?case
    using slice_last_snoc [of 300 "bufferRef st @ [u]" us] by (simp add: buf)
qed

text \<open>
  C9, the FIFO bound. Recording the snapshots \<open>us\<close> one after the other into an empty
  buffer, with recording enabled, leaves the last 300 of them in arrival order; the length
  is the smaller of \<open>length us\<close> and 300, so never more than 300; after 301 recordings the
  length is 300 and the buffer is \<open>us\<close> without its first element.
\<close>

theorem replay_fifo_bound:
  assumes "isRecording st" and "bufferRef st = []"
  shows "bufferRef (record_all us st) = drop (length us - 300) us
       \<and> length (bufferRef (record_all us st)) = min (length us) 300
       \<and> length (bufferRef (record_all us st)) \<le> 300
       \<and> (length us = 301 \<longrightarrow>
            length (bufferRef (record_all us st)) = 300 \<and> bufferRef (record_all us st) = tl us)"
proof -
  have buf: "bufferRef (record_all us st) = drop (length us - 300) us"
    using record_all_buffer [of st us] assms by (simp add: slice_last_def)
  have "length us = 301 \<Longrightarrow> drop (length us - 300) us = tl us"
    by (simp add: drop_Suc)
  then show ?thesis
    by (auto simp add: buf)
qed

theorem replay_fifo_bound_witness:
  "isRecording initial_replay_state \<and> bufferRef initial_replay_state = []
   \<and> length (snap ''first'' # replicate 300 (snap ''later'')) = 301
   \<and> bufferRef (record_all (snap ''first'' # replicate 300 (snap ''later'')) initial_replay_state)
       = replicate 300 (snap ''later'')
   \<and> length (bufferRef (record_all (snap ''first'' # replicate 300 (snap ''later''))
               initial_replay_state)) = 300"
  using replay_fifo_bound [of initial_replay_state "snap ''first'' # replicate 300 (snap ''later'')"]
  by (simp add: initial_replay_state_def)

lemma playback_tick_bounded:
  "isPlaying st \<Longrightarrow> 0 \<le> playIndex st \<Longrightarrow>
     0 \<le> playIndex (playback_tick st)
     \<and> playIndex (playback_tick st) \<le> max 0 (int (length (bufferRef st)) - 1)"
  by (simp add: playback_tick_def Let_def)

text \<open>
  C10, the cursor read stays in bounds. For every buffer and every integer cursor: when
  the buffer is not empty the read gives the entry at index
  \<open>max 0 (min cursor (length - 1))\<close>, which lies inside the buffer, and it gives none
  exactly when the buffer is empty.
\<close>

theorem replay_current_in_bounds:
  "(bufferRef st \<noteq> [] \<longrightarrow>
      current st = Some (Element (bufferRef st !
                     nat (max 0 (min (playIndex st) (int (length (bufferRef st)) - 1)))))
      \<and> nat (max 0 (min (playIndex st) (int (length (bufferRef st)) - 1))) < length (bufferRef st))
   \<and> (current st = None \<longleftrightarrow> bufferRef st = [])"
proof -
  have idx: "0 \<le> max 0 (min i (int n - 1)) \<and> max 0 (min i (int n - 1)) < int n
             \<and> nat (max 0 (min i (int n - 1))) < n" if "0 < n" for i :: int and n :: nat
    using that by auto
  show ?thesis
    using idx [of "length (bufferRef st)" "playIndex st"]
    by (simp add: current_def array_get_def Let_def)
qed

theorem replay_current_in_bounds_witness:
  "bufferRef (seek (Some 7) (record_all [snap ''a'', snap ''b''] initial_replay_state)) \<noteq> []
   \<and> playIndex (seek (Some 7) (record_all [snap ''a'', snap ''b''] initial_replay_state)) = 7
   \<and> current (seek (Some 7) (record_all [snap ''a'', snap ''b''] initial_replay_state))
       = Some (Element (snap ''b''))
   \<and> current (seek (Some (- 3)) (record_all [snap ''a'', snap ''b''] initial_replay_state))
       = Some (Element (snap ''a''))
   \<and> current initial_replay_state = None"
  using replay_current_in_bounds [of "seek (Some 7) (record_all [snap ''a'', snap ''b''] initial_replay_state)"]
        replay_current_in_bounds [of "seek (Some (- 3)) (record_all [snap ''a'', snap ''b''] initial_replay_state)"]
        replay_current_in_bounds [of initial_replay_state]
  by (simp add: initial_replay_state_def seek_def record_effect_def slice_last_def Let_def)

end
